theory Spec2Isabelle
  imports Complex_Main "HOL-Library.Sublist"
begin

section \<open>The inference router of apps/fastapi-inference/app.py\<close>

text \<open>
  The module serves two endpoints with decision logic: \<open>GET /health\<close> (\<open>health_check\<close>)
  and \<open>POST /generate\<close> (\<open>generate_text\<close>, with the adapters \<open>generate_with_ollama\<close>
  and \<open>generate_with_bedrock_fallback\<close>). Each awaited call of the source is modelled
  by its outcome: a value, or the \<open>Exception\<close> it raised. Python strings are
  \<open>string\<close>s; a \<open>char\<close> stands for one code point below 256. Log lines do not
  influence any returned value or raised error and are left out. Only what an
  \<open>except Exception\<close> clause can catch is an exception here; the cancellation of a
  request is not covered.
\<close>

subsection \<open>Exceptions\<close>

text \<open>
  \<open>HTTPException\<close> is the framework's exception with its \<open>status_code\<close> and
  \<open>detail\<close>; \<open>PyException m\<close> is any other \<open>Exception\<close>, with \<open>m\<close> what \<open>str\<close>
  gives for it. What \<open>str\<close> gives for an \<open>HTTPException\<close> is decided by the framework,
  so it is a parameter \<open>hstr\<close> of everything that formats such an exception.
\<close>

datatype exn = HTTPException int string | PyException string

type_synonym http_str = "int \<Rightarrow> string \<Rightarrow> string"

fun str_exn :: "http_str \<Rightarrow> exn \<Rightarrow> string" where
  "str_exn hstr (HTTPException code detail) = hstr code detail"
| "str_exn hstr (PyException m) = m"

subsection \<open>Request and response models\<close>

record GenerateRequest =
  prompt :: string
  model :: string
  max_tokens :: "int option"
  temperature :: "real option"
  stream :: "bool option"

text \<open>
  \<open>text_out\<close> and \<open>model_out\<close> are the fields \<open>text\<close> and \<open>model\<close> of
  \<open>GenerateResponse\<close>.
\<close>

record GenerateResponse =
  text_out :: string
  model_out :: string
  tokens_used :: int
  latency_ms :: real
  source :: string

record HealthResponse =
  status :: string
  timestamp :: real
  services :: "string \<rightharpoonup> string"

subsection \<open>What the HTTP client returns\<close>

text \<open>
  A decoded JSON document as Python holds it. \<open>JObject\<close> lists the members in document
  order; a later member with the same key overrides an earlier one.
\<close>

datatype json =
    JNull
  | JBool bool
  | JInt int
  | JFloat real
  | JString string
  | JArray "json list"
  | JObject "(string \<times> json) list"

text \<open>
  An \<open>httpx\<close> response: \<open>status_code\<close>, \<open>text_body\<close> (the property \<open>text\<close>) and
  \<open>json_body\<close> (the outcome of calling \<open>json()\<close>, which raises on a malformed body).
\<close>

record httpx_response =
  status_code :: int
  text_body :: string
  json_body :: "exn + json"

subsection \<open>Python primitives used by the adapters\<close>

text \<open>\<open>str.isspace\<close> on the code points below 256.\<close>

definition isspace :: "char \<Rightarrow> bool" where
  "isspace c \<longleftrightarrow> of_char c \<in> {9, 10, 11, 12, 13, 28, 29, 30, 31, 32, 133, 160 :: nat}"

text \<open>
  \<open>str.split()\<close> without arguments: the maximal runs of non-whitespace characters, in
  order. \<open>split_ws cur s\<close> scans \<open>s\<close> with \<open>cur\<close> the word read so far.
\<close>

fun split_ws :: "string \<Rightarrow> string \<Rightarrow> string list" where
  "split_ws cur [] = (if cur = [] then [] else [cur])"
| "split_ws cur (c # cs) =
     (if isspace c then (if cur = [] then split_ws [] cs else cur # split_ws [] cs)
      else split_ws (cur @ [c]) cs)"

definition str_split :: "string \<Rightarrow> string list" where
  "str_split s = split_ws [] s"

fun type_name :: "json \<Rightarrow> string" where
  "type_name JNull = ''NoneType''"
| "type_name (JBool _) = ''bool''"
| "type_name (JInt _) = ''int''"
| "type_name (JFloat _) = ''float''"
| "type_name (JString _) = ''str''"
| "type_name (JArray _) = ''list''"
| "type_name (JObject _) = ''dict''"

definition no_attribute :: "json \<Rightarrow> string \<Rightarrow> exn" where
  "no_attribute v a =
     PyException ([CHR 39] @ type_name v @ [CHR 39] @ '' object has no attribute ''
                  @ [CHR 39] @ a @ [CHR 39])"

text \<open>\<open>result.get(key, default)\<close>: only a dict has the method.\<close>

fun json_get :: "json \<Rightarrow> string \<Rightarrow> json \<Rightarrow> exn + json" where
  "json_get (JObject kvs) k d = (case map_of (rev kvs) k of None \<Rightarrow> Inr d | Some v \<Rightarrow> Inr v)"
| "json_get v k d = Inl (no_attribute v ''get'')"

text \<open>\<open>v.split()\<close>: only a string has the method.\<close>

fun json_split :: "json \<Rightarrow> exn + string list" where
  "json_split (JString s) = Inr (str_split s)"
| "json_split v = Inl (no_attribute v ''split'')"

subsection \<open>The health endpoint\<close>

text \<open>
  \<open>health_check hstr probe now\<close>: \<open>probe\<close> is the outcome of the awaited
  \<open>http_client.get(OLLAMA_URL/api/tags)\<close> and \<open>now\<close> the reading of \<open>time.time()\<close>.
  The result is what the endpoint hands to the framework: \<open>Inl\<close> an exception that
  escaped, \<open>Inr\<close> the response.
\<close>

definition health_check :: "http_str \<Rightarrow> exn + httpx_response \<Rightarrow> real \<Rightarrow> exn + HealthResponse" where
  "health_check hstr probe now =
     (let services0 = Map.empty;
          services1 =
            (case probe of
               Inr response \<Rightarrow>
                 services0(''ollama'' \<mapsto>
                   (if status_code response = 200 then ''healthy'' else ''unhealthy''))
             | Inl e \<Rightarrow> services0(''ollama'' \<mapsto> ''unhealthy: '' @ str_exn hstr e))
      in Inr \<lparr>status = ''healthy'', timestamp = now, services = services1\<rparr>)"

subsection \<open>The backend adapters\<close>

text \<open>
  \<open>ollama_body\<close> is the \<open>try\<close> block of \<open>generate_with_ollama\<close>: \<open>posted\<close> is the
  outcome of the awaited \<open>http_client.post\<close>, \<open>clock\<close> holds the two readings of
  \<open>time.time()\<close>. The keyword arguments of \<open>GenerateResponse\<close> are evaluated in the
  order written: \<open>text\<close> first, then \<open>tokens_used\<close>, where \<open>split\<close> raises unless the
  value is a string. The last case distinction only reads the string out of \<open>t\<close>; its
  default branch is never reached, as \<open>split\<close> has raised before.
\<close>

definition ollama_body ::
  "exn + httpx_response \<Rightarrow> real \<times> real \<Rightarrow> GenerateRequest \<Rightarrow> exn + GenerateResponse" where
  "ollama_body posted clock request =
     (case posted of
        Inl e \<Rightarrow> Inl e
      | Inr response \<Rightarrow>
          if status_code response \<noteq> 200
          then Inl (HTTPException (status_code response)
                      (''Ollama error: '' @ text_body response))
          else
            (case json_body response of
               Inl e \<Rightarrow> Inl e
             | Inr result \<Rightarrow>
                 (let latency = (snd clock - fst clock) * 1000 in
                  case json_get result ''response'' (JString []) of
                    Inl e \<Rightarrow> Inl e
                  | Inr t \<Rightarrow>
                      (case json_get result ''response'' (JString []) of
                         Inl e \<Rightarrow> Inl e
                       | Inr t' \<Rightarrow>
                           (case json_split t' of
                              Inl e \<Rightarrow> Inl e
                            | Inr ws \<Rightarrow>
                                (case t of
                                   JString s \<Rightarrow>
                                     Inr \<lparr>text_out = s, model_out = model request,
                                          tokens_used = int (length ws),
                                          latency_ms = latency, source = ''ollama''\<rparr>
                                 | _ \<Rightarrow> Inl (no_attribute t ''split'')))))))"

text \<open>The \<open>except Exception\<close> clause wraps whatever the block raised.\<close>

definition generate_with_ollama ::
  "http_str \<Rightarrow> exn + httpx_response \<Rightarrow> real \<times> real \<Rightarrow> GenerateRequest
     \<Rightarrow> exn + GenerateResponse" where
  "generate_with_ollama hstr posted clock request =
     (case ollama_body posted clock request of
        Inr r \<Rightarrow> Inr r
      | Inl e \<Rightarrow> Inl (HTTPException 500 (''Ollama generation failed: '' @ str_exn hstr e)))"

definition generate_with_bedrock_fallback ::
  "real \<times> real \<Rightarrow> GenerateRequest \<Rightarrow> exn + GenerateResponse" where
  "generate_with_bedrock_fallback clock request =
     (let fallback_response = ''[BEDROCK FALLBACK] Response to: '' @ prompt request;
          latency = (snd clock - fst clock) * 1000
      in Inr \<lparr>text_out = fallback_response, model_out = ''bedrock-claude'',
              tokens_used = int (length (str_split fallback_response)),
              latency_ms = latency, source = ''bedrock''\<rparr>)"

subsection \<open>The generation endpoint\<close>

datatype backend = Ollama | Bedrock

fun backend_name :: "backend \<Rightarrow> string" where
  "backend_name Ollama = ''ollama''"
| "backend_name Bedrock = ''bedrock''"

text \<open>
  An adapter, seen from \<open>generate_text\<close>: the outcome of awaiting it on a request.
  \<open>invoke\<close> is a call of an adapter; it appends the backend to the list of calls made so
  far, which is how a call count on an adapter is read off.
\<close>

type_synonym adapter = "GenerateRequest \<Rightarrow> exn + GenerateResponse"

definition invoke ::
  "backend \<Rightarrow> adapter \<Rightarrow> GenerateRequest \<Rightarrow> backend list
     \<Rightarrow> (exn + GenerateResponse) \<times> backend list" where
  "invoke b f request calls = (f request, calls @ [b])"

text \<open>
  The body of \<open>generate_text\<close> with the two adapters it calls and the module constant
  \<open>BEDROCK_FALLBACK\<close> as arguments. The result is what the endpoint returns or raises,
  with the adapter calls made.
\<close>

definition generate_text_with ::
  "http_str \<Rightarrow> bool \<Rightarrow> adapter \<Rightarrow> adapter \<Rightarrow> GenerateRequest
     \<Rightarrow> (exn + GenerateResponse) \<times> backend list" where
  "generate_text_with hstr BEDROCK_FALLBACK ollama bedrock request =
     (case invoke Ollama ollama request [] of
        (Inr r, calls) \<Rightarrow> (Inr r, calls)
      | (Inl e, calls) \<Rightarrow>
          if BEDROCK_FALLBACK
          then (case invoke Bedrock bedrock request calls of
                  (Inr r, calls') \<Rightarrow> (Inr r, calls')
                | (Inl bedrock_error, calls') \<Rightarrow>
                    (Inl (HTTPException 500
                            (''All inference backends failed. '' @ ''Ollama: '' @ str_exn hstr e
                             @ '', Bedrock: '' @ str_exn hstr bedrock_error)),
                     calls'))
          else (Inl (HTTPException 500
                       (''Ollama failed and Bedrock fallback '' @ ''disabled: ''
                        @ str_exn hstr e)),
                calls))"

text \<open>
  What surrounds one call of the endpoint: the outcome of the HTTP request to Ollama and
  the clock readings of each adapter.
\<close>

record io =
  posted :: "exn + httpx_response"
  ollama_clock :: "real \<times> real"
  bedrock_clock :: "real \<times> real"

definition generate_text ::
  "http_str \<Rightarrow> bool \<Rightarrow> io \<Rightarrow> GenerateRequest \<Rightarrow> (exn + GenerateResponse) \<times> backend list" where
  "generate_text hstr BEDROCK_FALLBACK w request =
     generate_text_with hstr BEDROCK_FALLBACK
       (generate_with_ollama hstr (posted w) (ollama_clock w))
       (generate_with_bedrock_fallback (bedrock_clock w))
       request"

subsection \<open>Example inputs\<close>

text \<open>A rendering of \<open>HTTPException\<close> for the examples: the detail alone.\<close>

definition detail_only :: http_str where
  "detail_only code detail = detail"

definition example_request :: GenerateRequest where
  "example_request =
     \<lparr>prompt = ''hello'', model = ''llama3'', max_tokens = Some 50,
      temperature = Some (7 / 10), stream = Some False\<rparr>"

definition quoted :: "string \<Rightarrow> string" where
  "quoted s = [CHR 0x22] @ s @ [CHR 0x22]"

text \<open>The response of Ollama with the body \<open>{"response": "hi there"}\<close>.\<close>

definition hi_there :: httpx_response where
  "hi_there =
     \<lparr>status_code = 200,
      text_body = ''{'' @ quoted ''response'' @ '': '' @ quoted ''hi there'' @ ''}'',
      json_body = Inr (JObject [(''response'', JString ''hi there'')])\<rparr>"

definition ollama_up :: io where
  "ollama_up = \<lparr>posted = Inr hi_there, ollama_clock = (0, 1), bedrock_clock = (1, 2)\<rparr>"

definition ollama_down :: io where
  "ollama_down =
     \<lparr>posted = Inl (PyException ''All connection attempts failed''),
      ollama_clock = (0, 1), bedrock_clock = (1, 2)\<rparr>"

text \<open>A 503 answer of Ollama whose body is not JSON.\<close>

definition unavailable :: httpx_response where
  "unavailable =
     \<lparr>status_code = 503, text_body = ''Service Unavailable'',
      json_body = Inl (PyException ''Expecting value: line 1 column 1 (char 0)'')\<rparr>"

text \<open>A stand-in for an adapter that raises, as a test double would.\<close>

definition failing_adapter :: "string \<Rightarrow> adapter" where
  "failing_adapter m request = Inl (PyException m)"

section \<open>Properties\<close>

subsection \<open>Facts about the adapters\<close>

lemma json_split_Inr: "json_split t = Inr ws \<Longrightarrow> \<exists>s. t = JString s \<and> ws = str_split s"
  by (cases t) auto

lemma ollama_body_Inr:
  assumes "ollama_body p clock request = Inr r"
  shows "source r = ''ollama'' \<and> model_out r = model request
         \<and> tokens_used r = int (length (str_split (text_out r)))"
  using assms
  by (auto simp: ollama_body_def Let_def split: sum.splits if_splits json.splits
           dest!: json_split_Inr)

lemma generate_with_ollama_Inr:
  assumes "generate_with_ollama hstr p clock request = Inr r"
  shows "source r = ''ollama'' \<and> model_out r = model request
         \<and> tokens_used r = int (length (str_split (text_out r)))"
proof -
  from assms have "ollama_body p clock request = Inr r"
    by (simp add: generate_with_ollama_def split: sum.splits)
  then show ?thesis by (rule ollama_body_Inr)
qed

lemma bedrock_fallback_eq:
  "generate_with_bedrock_fallback clock request =
     Inr \<lparr>text_out = ''[BEDROCK FALLBACK] Response to: '' @ prompt request,
          model_out = ''bedrock-claude'',
          tokens_used = int (length (str_split (''[BEDROCK FALLBACK] Response to: '' @ prompt request))),
          latency_ms = (snd clock - fst clock) * 1000, source = ''bedrock''\<rparr>"
  by (simp add: generate_with_bedrock_fallback_def Let_def)

subsection \<open>Facts about the endpoint\<close>

lemma generate_text_with_primary:
  "ollama request = Inr r \<Longrightarrow>
   generate_text_with hstr fb ollama bedrock request = (Inr r, [Ollama])"
  by (simp add: generate_text_with_def invoke_def)

lemma generate_text_with_fallback:
  "ollama request = Inl e \<Longrightarrow> bedrock request = Inr r \<Longrightarrow>
   generate_text_with hstr True ollama bedrock request = (Inr r, [Ollama, Bedrock])"
  by (simp add: generate_text_with_def invoke_def)

lemma generate_text_with_disabled:
  "ollama request = Inl e \<Longrightarrow>
   generate_text_with hstr False ollama bedrock request =
     (Inl (HTTPException 500
            (''Ollama failed and Bedrock fallback disabled: '' @ str_exn hstr e)),
      [Ollama])"
  by (simp add: generate_text_with_def invoke_def)

lemma generate_text_Inr_cases:
  assumes "generate_text hstr fb w request = (Inr r, calls)"
  shows "(generate_with_ollama hstr (posted w) (ollama_clock w) request = Inr r \<and> calls = [Ollama])
       \<or> (fb \<and> (\<exists>e. generate_with_ollama hstr (posted w) (ollama_clock w) request = Inl e)
           \<and> generate_with_bedrock_fallback (bedrock_clock w) request = Inr r
           \<and> calls = [Ollama, Bedrock])"
  using assms
  by (auto simp: generate_text_def generate_text_with_def invoke_def
           split: sum.splits if_splits)

lemma example_primary:
  "generate_with_ollama hstr (Inr hi_there) clock request =
     Inr \<lparr>text_out = ''hi there'', model_out = model request, tokens_used = 2,
          latency_ms = (snd clock - fst clock) * 1000, source = ''ollama''\<rparr>"
  by (simp add: generate_with_ollama_def ollama_body_def hi_there_def Let_def
        str_split_def isspace_def)

lemma example_primary_down:
  "generate_with_ollama hstr (posted ollama_down) clock request =
     Inl (HTTPException 500 ''Ollama generation failed: All connection attempts failed'')"
  by (simp add: generate_with_ollama_def ollama_body_def ollama_down_def)

lemma example_fallback:
  "generate_text detail_only True ollama_down example_request
     = (Inr \<lparr>text_out = ''[BEDROCK FALLBACK] Response to: hello'',
             model_out = ''bedrock-claude'', tokens_used = 5, latency_ms = 1000,
             source = ''bedrock''\<rparr>, [Ollama, Bedrock])"
  by (simp add: generate_text_def generate_text_with_def invoke_def generate_with_ollama_def
        ollama_body_def bedrock_fallback_eq ollama_down_def example_request_def
        str_split_def isspace_def)

subsection \<open>Facts about the health endpoint\<close>

lemma health_check_eq:
  "health_check hstr probe now =
     Inr \<lparr>status = ''healthy'', timestamp = now,
          services = [''ollama'' \<mapsto>
            (case probe of
               Inr response \<Rightarrow> if status_code response = 200 then ''healthy'' else ''unhealthy''
             | Inl e \<Rightarrow> ''unhealthy: '' @ str_exn hstr e)]\<rparr>"
  by (simp add: health_check_def Let_def split: sum.splits)

subsection \<open>Generation: what is returned and which adapters are called\<close>

text \<open>
  C1. When the primary adapter raises, fallback is enabled and the fallback adapter raises
  too, the endpoint raises one \<open>HTTPException\<close> with status 500 whose detail names the
  two causes in the order of the attempts, Ollama's first and Bedrock's second, and
  exactly these two calls were made. The adapters are arbitrary here: the fallback
  adapter shipped in the module never raises, so the case arises with another adapter
  in its place.
\<close>

theorem both_backends_fail:
  assumes "ollama request = Inl e" and "bedrock request = Inl bedrock_error"
  shows "generate_text_with hstr True ollama bedrock request =
           (Inl (HTTPException 500
                   (''All inference backends failed. Ollama: '' @ str_exn hstr e
                    @ '', Bedrock: '' @ str_exn hstr bedrock_error)),
            [Ollama, Bedrock])"
  using assms by (simp add: generate_text_with_def invoke_def)

theorem both_backends_fail_witness:
  "generate_with_ollama detail_only (posted ollama_down) (0, 1) example_request
     = Inl (HTTPException 500 ''Ollama generation failed: All connection attempts failed'')
   \<and> failing_adapter ''ThrottlingException'' example_request
     = Inl (PyException ''ThrottlingException'')
   \<and> generate_text_with detail_only True
        (generate_with_ollama detail_only (posted ollama_down) (0, 1))
        (failing_adapter ''ThrottlingException'') example_request
     = (Inl (HTTPException 500
          ''All inference backends failed. Ollama: Ollama generation failed: All connection attempts failed, Bedrock: ThrottlingException''),
        [Ollama, Bedrock])"
proof -
  have p: "generate_with_ollama detail_only (posted ollama_down) (0, 1) example_request
     = Inl (HTTPException 500 ''Ollama generation failed: All connection attempts failed'')"
    by (rule example_primary_down)
  have f: "failing_adapter ''ThrottlingException'' example_request
     = Inl (PyException ''ThrottlingException'')"
    by (simp add: failing_adapter_def)
  show ?thesis
    using p f
      both_backends_fail [where ollama = "generate_with_ollama detail_only (posted ollama_down) (0, 1)"
        and bedrock = "failing_adapter ''ThrottlingException''" and request = example_request
        and hstr = detail_only, OF p f]
    by (simp add: detail_only_def)
qed

text \<open>
  C2. When the primary adapter returns a result, the endpoint returns that result, its
  \<open>source\<close> is the primary backend's name, and the only adapter call made is the one to
  the primary: the fallback adapter is not called.
\<close>

theorem primary_success:
  assumes "generate_with_ollama hstr (posted w) (ollama_clock w) request = Inr r"
  shows "generate_text hstr fb w request = (Inr r, [Ollama])
         \<and> source r = backend_name Ollama
         \<and> Bedrock \<notin> set (snd (generate_text hstr fb w request))"
proof -
  have "generate_text hstr fb w request = (Inr r, [Ollama])"
    unfolding generate_text_def using assms by (rule generate_text_with_primary)
  moreover have "source r = backend_name Ollama"
    using generate_with_ollama_Inr [OF assms] by simp
  ultimately show ?thesis by simp
qed

theorem primary_success_witness:
  "generate_with_ollama detail_only (posted ollama_up) (ollama_clock ollama_up) example_request
     = Inr \<lparr>text_out = ''hi there'', model_out = ''llama3'', tokens_used = 2,
            latency_ms = 1000, source = ''ollama''\<rparr>
   \<and> generate_text detail_only True ollama_up example_request
     = (Inr \<lparr>text_out = ''hi there'', model_out = ''llama3'', tokens_used = 2,
             latency_ms = 1000, source = ''ollama''\<rparr>, [Ollama])"
proof -
  have p: "generate_with_ollama detail_only (posted ollama_up) (ollama_clock ollama_up)
             example_request
     = Inr \<lparr>text_out = ''hi there'', model_out = ''llama3'', tokens_used = 2,
            latency_ms = 1000, source = ''ollama''\<rparr>"
    by (simp add: ollama_up_def example_primary example_request_def)
  show ?thesis
    using p primary_success [OF p, of True] by simp
qed

text \<open>
  C4. When the primary adapter raises and fallback is disabled, the endpoint raises an
  \<open>HTTPException\<close> with status 500 whose detail carries the primary's cause alone, and
  the only adapter call made is the one to the primary.
\<close>

theorem primary_fails_fallback_disabled:
  assumes "generate_with_ollama hstr (posted w) (ollama_clock w) request = Inl e"
  shows "generate_text hstr False w request =
           (Inl (HTTPException 500
                   (''Ollama failed and Bedrock fallback disabled: '' @ str_exn hstr e)),
            [Ollama])
         \<and> Bedrock \<notin> set (snd (generate_text hstr False w request))"
proof -
  have "generate_text hstr False w request =
           (Inl (HTTPException 500
                   (''Ollama failed and Bedrock fallback disabled: '' @ str_exn hstr e)),
            [Ollama])"
    unfolding generate_text_def using assms by (rule generate_text_with_disabled)
  then show ?thesis by simp
qed

theorem primary_fails_fallback_disabled_witness:
  "generate_with_ollama detail_only (posted ollama_down) (ollama_clock ollama_down)
       example_request
     = Inl (HTTPException 500 ''Ollama generation failed: All connection attempts failed'')
   \<and> generate_text detail_only False ollama_down example_request
     = (Inl (HTTPException 500
          ''Ollama failed and Bedrock fallback disabled: Ollama generation failed: All connection attempts failed''),
        [Ollama])"
proof -
  have p: "generate_with_ollama detail_only (posted ollama_down) (ollama_clock ollama_down)
       example_request
     = Inl (HTTPException 500 ''Ollama generation failed: All connection attempts failed'')"
    by (rule example_primary_down)
  show ?thesis
    using p primary_fails_fallback_disabled [OF p] by (simp add: detail_only_def)
qed

text \<open>
  C3. When the primary adapter raises and fallback is enabled, the fallback adapter is
  called exactly once, after the primary, and the endpoint returns its result, whose
  \<open>source\<close> is the fallback backend's name. Whatever result the endpoint returns, its
  \<open>source\<close> is the name of the backend called last, the one that produced the text.
\<close>

theorem primary_fails_fallback_enabled:
  "(generate_with_ollama hstr (posted w) (ollama_clock w) request = Inl e \<longrightarrow>
      (\<exists>r. generate_with_bedrock_fallback (bedrock_clock w) request = Inr r
           \<and> generate_text hstr True w request = (Inr r, [Ollama, Bedrock])
           \<and> count_list (snd (generate_text hstr True w request)) Bedrock = 1
           \<and> source r = backend_name Bedrock))
   \<and> (generate_text hstr fb w request = (Inr r', calls) \<longrightarrow>
        calls \<noteq> [] \<and> source r' = backend_name (last calls))"
proof -
  have first: "\<exists>r. generate_with_bedrock_fallback (bedrock_clock w) request = Inr r
           \<and> generate_text hstr True w request = (Inr r, [Ollama, Bedrock])
           \<and> count_list (snd (generate_text hstr True w request)) Bedrock = 1
           \<and> source r = backend_name Bedrock"
    if a: "generate_with_ollama hstr (posted w) (ollama_clock w) request = Inl e"
  proof -
    obtain r where r: "generate_with_bedrock_fallback (bedrock_clock w) request = Inr r"
      and s: "source r = ''bedrock''"
      by (simp add: bedrock_fallback_eq)
    have "generate_text hstr True w request = (Inr r, [Ollama, Bedrock])"
      using a r by (simp add: generate_text_def generate_text_with_fallback)
    with r s show ?thesis by simp
  qed
  have second: "calls \<noteq> [] \<and> source r' = backend_name (last calls)"
    if a: "generate_text hstr fb w request = (Inr r', calls)"
    using generate_text_Inr_cases [OF a]
  proof
    assume "generate_with_ollama hstr (posted w) (ollama_clock w) request = Inr r'
            \<and> calls = [Ollama]"
    then show ?thesis using generate_with_ollama_Inr by fastforce
  next
    assume "fb \<and> (\<exists>e. generate_with_ollama hstr (posted w) (ollama_clock w) request = Inl e)
           \<and> generate_with_bedrock_fallback (bedrock_clock w) request = Inr r'
           \<and> calls = [Ollama, Bedrock]"
    then show ?thesis by (auto simp: bedrock_fallback_eq)
  qed
  from first second show ?thesis by blast
qed

theorem primary_fails_fallback_enabled_witness:
  "generate_with_ollama detail_only (posted ollama_down) (ollama_clock ollama_down)
       example_request
     = Inl (HTTPException 500 ''Ollama generation failed: All connection attempts failed'')
   \<and> generate_text detail_only True ollama_down example_request
     = (Inr \<lparr>text_out = ''[BEDROCK FALLBACK] Response to: hello'',
             model_out = ''bedrock-claude'', tokens_used = 5, latency_ms = 1000,
             source = ''bedrock''\<rparr>, [Ollama, Bedrock])
   \<and> [Ollama, Bedrock] \<noteq> []
   \<and> ''bedrock'' = backend_name (last [Ollama, Bedrock])"
proof -
  have p: "generate_with_ollama detail_only (posted ollama_down) (ollama_clock ollama_down)
       example_request
     = Inl (HTTPException 500 ''Ollama generation failed: All connection attempts failed'')"
    by (rule example_primary_down)
  have g: "generate_text detail_only True ollama_down example_request
     = (Inr \<lparr>text_out = ''[BEDROCK FALLBACK] Response to: hello'',
             model_out = ''bedrock-claude'', tokens_used = 5, latency_ms = 1000,
             source = ''bedrock''\<rparr>, [Ollama, Bedrock])"
    by (rule example_fallback)
  show ?thesis
    using p g
      primary_fails_fallback_enabled [of detail_only ollama_down example_request
        "HTTPException 500 ''Ollama generation failed: All connection attempts failed''"
        True
        "\<lparr>text_out = ''[BEDROCK FALLBACK] Response to: hello'',
             model_out = ''bedrock-claude'', tokens_used = 5, latency_ms = 1000,
             source = ''bedrock''\<rparr>" "[Ollama, Bedrock]"]
    by simp
qed

text \<open>
  C5. Every result the endpoint returns has \<open>tokens_used\<close> equal to the number of
  whitespace-separated words of its text; neither adapter reads a usage count of its
  backend. In particular, when Ollama answers \<open>{"response": "hi there"}\<close>, the primary
  adapter returns the text \<open>hi there\<close> with \<open>tokens_used\<close> 2.
\<close>

theorem tokens_used_word_count:
  "(generate_text hstr fb w request = (Inr r, calls) \<longrightarrow>
      tokens_used r = int (length (str_split (text_out r))))
   \<and> (\<exists>r'. generate_with_ollama hstr (Inr hi_there) clock request = Inr r'
          \<and> text_out r' = ''hi there'' \<and> tokens_used r' = 2)"
proof -
  have "tokens_used r = int (length (str_split (text_out r)))"
    if a: "generate_text hstr fb w request = (Inr r, calls)"
    using generate_text_Inr_cases [OF a]
  proof
    assume "generate_with_ollama hstr (posted w) (ollama_clock w) request = Inr r
            \<and> calls = [Ollama]"
    then show ?thesis using generate_with_ollama_Inr by blast
  next
    assume "fb \<and> (\<exists>e. generate_with_ollama hstr (posted w) (ollama_clock w) request = Inl e)
           \<and> generate_with_bedrock_fallback (bedrock_clock w) request = Inr r
           \<and> calls = [Ollama, Bedrock]"
    then show ?thesis by (auto simp: bedrock_fallback_eq)
  qed
  then show ?thesis by (simp add: example_primary)
qed

theorem tokens_used_word_count_witness:
  "generate_text detail_only True ollama_up example_request
     = (Inr \<lparr>text_out = ''hi there'', model_out = ''llama3'', tokens_used = 2,
             latency_ms = 1000, source = ''ollama''\<rparr>, [Ollama])
   \<and> int (length (str_split ''hi there'')) = 2"
proof -
  have g: "generate_text detail_only True ollama_up example_request
     = (Inr \<lparr>text_out = ''hi there'', model_out = ''llama3'', tokens_used = 2,
             latency_ms = 1000, source = ''ollama''\<rparr>, [Ollama])"
    by (simp add: generate_text_def ollama_up_def example_primary example_request_def
          generate_text_with_primary)
  show ?thesis
    using g
      tokens_used_word_count [of detail_only True ollama_up example_request
        "\<lparr>text_out = ''hi there'', model_out = ''llama3'', tokens_used = 2,
             latency_ms = 1000, source = ''ollama''\<rparr>" "[Ollama]"]
    by simp
qed

text \<open>
  C9. The fallback adapter returns a result for every request and every pair of clock
  readings; it has no raising path. The result's \<open>source\<close> is \<open>bedrock\<close>, which differs
  from the \<open>source\<close> of every result of the primary adapter.
\<close>

theorem fallback_adapter_never_raises:
  "\<exists>r. generate_with_bedrock_fallback clock request = Inr r
       \<and> source r = ''bedrock''
       \<and> (\<forall>hstr p clock' request' r'.
             generate_with_ollama hstr p clock' request' = Inr r' \<longrightarrow> source r' \<noteq> source r)"
proof -
  have "source r' \<noteq> ''bedrock''"
    if "generate_with_ollama hstr p clock' request' = Inr r'" for hstr p clock' request' r'
    using generate_with_ollama_Inr [OF that] by simp
  then show ?thesis by (simp add: bedrock_fallback_eq)
qed

theorem fallback_adapter_never_raises_witness:
  "\<exists>r. generate_with_bedrock_fallback (1, 2) example_request = Inr r
       \<and> source r = ''bedrock''
       \<and> generate_with_ollama detail_only (Inr hi_there) (0, 1) example_request
            = Inr \<lparr>text_out = ''hi there'', model_out = ''llama3'', tokens_used = 2,
                   latency_ms = 1000, source = ''ollama''\<rparr>
       \<and> ''ollama'' \<noteq> source r"
proof -
  have p: "generate_with_ollama detail_only (Inr hi_there) (0, 1) example_request
            = Inr \<lparr>text_out = ''hi there'', model_out = ''llama3'', tokens_used = 2,
                   latency_ms = 1000, source = ''ollama''\<rparr>"
    by (simp add: example_primary example_request_def)
  from fallback_adapter_never_raises [of "(1, 2)" example_request]
  obtain r where r: "generate_with_bedrock_fallback (1, 2) example_request = Inr r"
    "source r = ''bedrock''"
    and d: "\<forall>hstr p clock' request' r'.
             generate_with_ollama hstr p clock' request' = Inr r' \<longrightarrow> source r' \<noteq> source r"
    by blast
  from d p have "source \<lparr>text_out = ''hi there'', model_out = ''llama3'', tokens_used = 2,
                   latency_ms = 1000, source = ''ollama''\<rparr> \<noteq> source r"
    by blast
  with r p show ?thesis by simp
qed

text \<open>
  C10. The fallback adapter's result has the model \<open>bedrock-claude\<close>, whatever model the
  request names, and its text is \<open>[BEDROCK FALLBACK] Response to: \<close> followed by the
  prompt. The same holds for every result the endpoint returns after calling the fallback
  adapter, so such a response reports a model other than the requested one whenever the
  request asked for anything but \<open>bedrock-claude\<close>.
\<close>

theorem fallback_model_and_text:
  "(\<exists>r. generate_with_bedrock_fallback clock request = Inr r
        \<and> model_out r = ''bedrock-claude''
        \<and> text_out r = ''[BEDROCK FALLBACK] Response to: '' @ prompt request)
   \<and> (generate_text hstr fb w request = (Inr r', calls) \<and> Bedrock \<in> set calls \<longrightarrow>
        model_out r' = ''bedrock-claude''
        \<and> text_out r' = ''[BEDROCK FALLBACK] Response to: '' @ prompt request
        \<and> (model request \<noteq> ''bedrock-claude'' \<longrightarrow> model_out r' \<noteq> model request))"
proof -
  have "model_out r' = ''bedrock-claude''
        \<and> text_out r' = ''[BEDROCK FALLBACK] Response to: '' @ prompt request"
    if a: "generate_text hstr fb w request = (Inr r', calls)" and b: "Bedrock \<in> set calls"
    using generate_text_Inr_cases [OF a] b by (auto simp: bedrock_fallback_eq)
  then show ?thesis by (auto simp: bedrock_fallback_eq)
qed

theorem fallback_model_and_text_witness:
  "generate_text detail_only True ollama_down example_request
     = (Inr \<lparr>text_out = ''[BEDROCK FALLBACK] Response to: hello'',
             model_out = ''bedrock-claude'', tokens_used = 5, latency_ms = 1000,
             source = ''bedrock''\<rparr>, [Ollama, Bedrock])
   \<and> Bedrock \<in> set [Ollama, Bedrock]
   \<and> model example_request = ''llama3''
   \<and> model example_request \<noteq> ''bedrock-claude''"
proof -
  have g: "generate_text detail_only True ollama_down example_request
     = (Inr \<lparr>text_out = ''[BEDROCK FALLBACK] Response to: hello'',
             model_out = ''bedrock-claude'', tokens_used = 5, latency_ms = 1000,
             source = ''bedrock''\<rparr>, [Ollama, Bedrock])"
    by (rule example_fallback)
  show ?thesis
    using g
      fallback_model_and_text [of "(1, 2)" example_request detail_only True ollama_down
        "\<lparr>text_out = ''[BEDROCK FALLBACK] Response to: hello'',
             model_out = ''bedrock-claude'', tokens_used = 5, latency_ms = 1000,
             source = ''bedrock''\<rparr>" "[Ollama, Bedrock]"]
    by (simp add: example_request_def)
qed

subsection \<open>Health\<close>

text \<open>
  C8. Whatever the probe of the backend gave, the health endpoint returns a response
  whose top-level \<open>status\<close> is \<open>healthy\<close>.
\<close>

theorem health_status_always_healthy:
  "\<exists>h. health_check hstr probe now = Inr h \<and> status h = ''healthy''"
  by (simp add: health_check_eq)

text \<open>
  C7 as stated fails: a probe answered with a status other than 200 gives the bare entry
  \<open>unhealthy\<close>, with no colon and no detail.
\<close>

theorem non_200_entry_has_no_detail:
  "health_check detail_only (Inr unavailable) 0
     = Inr \<lparr>status = ''healthy'', timestamp = 0, services = [''ollama'' \<mapsto> ''unhealthy'']\<rparr>
   \<and> status_code unavailable = 503
   \<and> \<not> prefix ''unhealthy: '' ''unhealthy''"
  by (simp add: health_check_eq unavailable_def)

text \<open>
  C7, amended. The entry of \<open>ollama\<close> is \<open>healthy\<close> exactly when the probe was answered
  with status 200. A probe that raised gives \<open>unhealthy: \<close> followed by \<open>str\<close> of the
  exception; a probe answered with another status gives the bare string \<open>unhealthy\<close>.
\<close>

theorem health_entry_of_probe:
  assumes "health_check hstr probe now = Inr h"
  shows "(services h ''ollama'' = Some ''healthy''
            \<longleftrightarrow> (\<exists>response. probe = Inr response \<and> status_code response = 200))
         \<and> (\<forall>e. probe = Inl e \<longrightarrow>
               services h ''ollama'' = Some (''unhealthy: '' @ str_exn hstr e))
         \<and> (\<forall>response. probe = Inr response \<and> status_code response \<noteq> 200 \<longrightarrow>
               services h ''ollama'' = Some ''unhealthy'')"
  using assms by (cases probe) (auto simp: health_check_eq split: if_splits)

theorem health_entry_of_probe_witness:
  "health_check detail_only (Inl (PyException ''All connection attempts failed'')) 0
     = Inr \<lparr>status = ''healthy'', timestamp = 0,
            services = [''ollama'' \<mapsto> ''unhealthy: All connection attempts failed'']\<rparr>
   \<and> health_check detail_only (Inr unavailable) 0
     = Inr \<lparr>status = ''healthy'', timestamp = 0, services = [''ollama'' \<mapsto> ''unhealthy'']\<rparr>
   \<and> status_code unavailable \<noteq> 200
   \<and> health_check detail_only (Inr hi_there) 0
     = Inr \<lparr>status = ''healthy'', timestamp = 0, services = [''ollama'' \<mapsto> ''healthy'']\<rparr>
   \<and> status_code hi_there = 200"
proof -
  have a: "health_check detail_only (Inl (PyException ''All connection attempts failed'')) 0
     = Inr \<lparr>status = ''healthy'', timestamp = 0,
            services = [''ollama'' \<mapsto> ''unhealthy: All connection attempts failed'']\<rparr>"
    by (simp add: health_check_eq)
  have b: "health_check detail_only (Inr unavailable) 0
     = Inr \<lparr>status = ''healthy'', timestamp = 0, services = [''ollama'' \<mapsto> ''unhealthy'']\<rparr>"
    by (simp add: health_check_eq unavailable_def)
  have c: "health_check detail_only (Inr hi_there) 0
     = Inr \<lparr>status = ''healthy'', timestamp = 0, services = [''ollama'' \<mapsto> ''healthy'']\<rparr>"
    by (simp add: health_check_eq hi_there_def)
  show ?thesis
    using a b c health_entry_of_probe [OF a] health_entry_of_probe [OF b]
      health_entry_of_probe [OF c]
    by (simp add: unavailable_def hi_there_def)
qed

text \<open>
  C6 as stated fails: with fallback enabled the endpoint serves a request from the
  Bedrock backend while Ollama is unreachable, and the health report of the same
  situation has an entry for \<open>ollama\<close> only.
\<close>

theorem health_report_has_no_bedrock_entry:
  "generate_text detail_only True ollama_down example_request
     = (Inr \<lparr>text_out = ''[BEDROCK FALLBACK] Response to: hello'',
             model_out = ''bedrock-claude'', tokens_used = 5, latency_ms = 1000,
             source = ''bedrock''\<rparr>, [Ollama, Bedrock])
   \<and> health_check detail_only (Inl (PyException ''All connection attempts failed'')) 0
     = Inr \<lparr>status = ''healthy'', timestamp = 0,
            services = [''ollama'' \<mapsto> ''unhealthy: All connection attempts failed'']\<rparr>
   \<and> [''ollama'' \<mapsto> ''unhealthy: All connection attempts failed''] (backend_name Bedrock)
     = None"
  by (simp add: health_check_eq example_fallback)

text \<open>
  C6, amended. The health endpoint returns a response for every outcome of the probe:
  an exception of the probe and a status other than 200 both end up as an entry that
  starts with \<open>unhealthy\<close>. The report has exactly one entry, for \<open>ollama\<close>, the one
  backend that is probed; \<open>bedrock\<close> has none.
\<close>

theorem health_check_never_raises:
  "\<exists>h. health_check hstr probe now = Inr h
       \<and> dom (services h) = {backend_name Ollama}
       \<and> services h (backend_name Bedrock) = None
       \<and> (\<forall>e. probe = Inl e \<longrightarrow>
             (\<exists>s. services h ''ollama'' = Some s \<and> prefix ''unhealthy'' s))
       \<and> (\<forall>response. probe = Inr response \<and> status_code response \<noteq> 200 \<longrightarrow>
             (\<exists>s. services h ''ollama'' = Some s \<and> prefix ''unhealthy'' s))"
  by (cases probe) (auto simp: health_check_eq)

theorem health_check_never_raises_witness:
  "health_check detail_only (Inl (PyException ''All connection attempts failed'')) 0
     = Inr \<lparr>status = ''healthy'', timestamp = 0,
            services = [''ollama'' \<mapsto> ''unhealthy: All connection attempts failed'']\<rparr>
   \<and> prefix ''unhealthy'' ''unhealthy: All connection attempts failed''
   \<and> health_check detail_only (Inr unavailable) 0
     = Inr \<lparr>status = ''healthy'', timestamp = 0, services = [''ollama'' \<mapsto> ''unhealthy'']\<rparr>
   \<and> status_code unavailable \<noteq> 200
   \<and> prefix ''unhealthy'' ''unhealthy''"
  using health_check_never_raises
          [of detail_only "Inl (PyException ''All connection attempts failed'')" 0]
        health_check_never_raises [of detail_only "Inr unavailable" 0]
  by (simp add: health_check_eq unavailable_def)

end
